theory Spec2Isabelle
  imports Complex_Main "HOL-Library.Multiset" "HOL-Library.Product_Lexorder"
begin

section \<open>GOES data retrieval scripts: a shallow embedding\<close>

text \<open>
  The two scripts \<^verbatim>\<open>src/nasa_spaceApp/geos.py\<close> and \<^verbatim>\<open>src/public/geos_old.py\<close>
  are embedded function by function. Everything the scripts do beyond computing a value
  is explicit: the file system, the standard output and the log of \<^verbatim>\<open>urlretrieve\<close>
  calls are fields of a \<open>world\<close> record that every effectful function takes and returns,
  and an exception is the \<open>Inl\<close> branch of a sum. The third-party libraries (sunpy,
  xarray, urllib, astropy tables) are not part of the repository: their operations are
  fields of an \<open>env\<close> record, left arbitrary in every theorem.
\<close>

subsection \<open>Python strings\<close>

text \<open>\<^verbatim>\<open>"{:d}".format(n)\<close> for an \<^verbatim>\<open>int\<close>: the decimal digits, with a minus sign below zero.\<close>

definition digit_char :: "nat \<Rightarrow> char" where
  "digit_char n = ''0123456789'' ! n"

fun format_nat :: "nat \<Rightarrow> string" where
  "format_nat n =
     (if n < 10 then [digit_char n] else format_nat (n div 10) @ [digit_char (n mod 10)])"

declare format_nat.simps [simp del]

definition format_d :: "int \<Rightarrow> string" where
  "format_d i = (if i < 0 then CHR ''-'' # format_nat (nat (- i)) else format_nat (nat i))"

text \<open>\<^verbatim>\<open>s.split(sep)\<close> with a one-character separator: never empty, so \<^verbatim>\<open>[-1]\<close> is \<open>last\<close>.\<close>

fun split_char :: "char \<Rightarrow> string \<Rightarrow> string list" where
  "split_char sep [] = [[]]"
| "split_char sep (c # cs) =
     (if c = sep then [] # split_char sep cs
      else (case split_char sep cs of
              [] \<Rightarrow> [[c]]
            | seg # segs \<Rightarrow> (c # seg) # segs))"

text \<open>\<^verbatim>\<open>s.replace(old, '')\<close> for a one-character \<^verbatim>\<open>old\<close>.\<close>

definition remove_char :: "char \<Rightarrow> string \<Rightarrow> string" where
  "remove_char c s = filter (\<lambda>x. x \<noteq> c) s"

text \<open>\<^verbatim>\<open>os.path.join(a, b)\<close> of \<^verbatim>\<open>posixpath\<close>, for two components.\<close>

definition os_path_join :: "string \<Rightarrow> string \<Rightarrow> string" where
  "os_path_join a b =
     (if b \<noteq> [] \<and> hd b = CHR ''/'' then b
      else if a = [] \<or> last a = CHR ''/'' then a @ b
      else a @ ''/'' @ b)"

subsection \<open>Module constants\<close>

definition APP_NAME :: string where
  "APP_NAME = ''nasa_spaceApp''"

definition DATA_PATH :: string where
  "DATA_PATH = APP_NAME @ ''/data''"

definition NGDC_URL :: string where
  "NGDC_URL = ''https://data.ngdc.noaa.gov/platforms/solar-space-observing-satellites/goes/''"

definition SWPC_URL :: string where
  "SWPC_URL = ''https://services.swpc.noaa.gov/json/goes/primary''"

definition XRS_X1S :: "string list" where
  "XRS_X1S = [''xrsf-l2-flx1s_science'', ''sci_xrsf-l2-flx1s_g'', ''_v2-1-0'']"

definition XRS_SUM :: "string list" where
  "XRS_SUM = [''xrsf-l2-flsum_science'', ''sci_xrsf-l2-flsum_g'', ''_v2-1-0'']"

definition XRS_LOC :: "string list" where
  "XRS_LOC = [''xrsf-l2-flloc_science'', ''sci_xrsf-l2-flloc_g'', ''_v2-1-0'']"

definition XRS_DET :: "string list" where
  "XRS_DET = [''xrsf-l2-fldet_science'', ''sci_xrsf-l2-fldet_g'', ''_v2-1-0'']"

definition XRS_KD1 :: "string list" where
  "XRS_KD1 = [''xrsf-l2-bkd1d_science'', ''sci_xrsf-l2-bkd1d_g'', ''_v2-1-0'']"

definition EPHE :: "string list" where
  "EPHE = [''ephe-l2-orb1m'', ''dn_ephe-l2-orb1m_g'', ''_v0-0-3'']"

definition EUV_AVG1D :: "string list" where
  "EUV_AVG1D = [''euvs-l2-avg1d_science'', ''sci_euvs-l2-avg1d_g'', ''_v1-0-1'']"

definition EUV_AVG1M :: "string list" where
  "EUV_AVG1M = [''euvs-l2-avg1m_science'', ''sci_euvs-l2-avg1m_g'', ''_v1-0-1'']"

definition MAG_HI :: "string list" where
  "MAG_HI = [''magn-l2-hires'', ''dn_magn-l2-hires_g'', ''_v1-0-1'']"

text \<open>The nine rows, and the nine type strings that \<^verbatim>\<open>construct_path\<close> compares with.\<close>

definition fragment_table :: "string list list" where
  "fragment_table =
     [XRS_X1S, XRS_SUM, XRS_LOC, XRS_DET, XRS_KD1, EPHE, EUV_AVG1D, EUV_AVG1M, MAG_HI]"

definition recognized_types :: "string list" where
  "recognized_types =
     [''xrs-x1s'', ''xrs-sum'', ''xrs-loc'', ''xrs-det'', ''xrs-kd1'', ''ephe'',
      ''euv-avg1d'', ''euv-avg1m'', ''mag-hi'']"

subsection \<open>\<^verbatim>\<open>construct_path\<close>\<close>

definition construct_path :: "string \<Rightarrow> string \<times> string \<times> string" where
  "construct_path type =
     (if type = ''xrs-x1s'' then (XRS_X1S ! 0, XRS_X1S ! 1, XRS_X1S ! 2)
      else if type = ''xrs-sum'' then (XRS_SUM ! 0, XRS_SUM ! 1, XRS_SUM ! 2)
      else if type = ''xrs-loc'' then (XRS_LOC ! 0, XRS_LOC ! 1, XRS_LOC ! 2)
      else if type = ''xrs-det'' then (XRS_DET ! 0, XRS_DET ! 1, XRS_DET ! 2)
      else if type = ''xrs-kd1'' then (XRS_KD1 ! 0, XRS_KD1 ! 1, XRS_KD1 ! 2)
      else if type = ''ephe'' then (EPHE ! 0, EPHE ! 1, EPHE ! 2)
      else if type = ''euv-avg1d'' then (EUV_AVG1D ! 0, EUV_AVG1D ! 1, EUV_AVG1D ! 2)
      else if type = ''euv-avg1m'' then (EUV_AVG1M ! 0, EUV_AVG1M ! 1, EUV_AVG1M ! 2)
      else if type = ''mag-hi'' then (MAG_HI ! 0, MAG_HI ! 1, MAG_HI ! 2)
      else (XRS_X1S ! 0, XRS_X1S ! 1, XRS_X1S ! 2))"

subsection \<open>Exceptions, the world, the libraries\<close>

datatype exn =
    KeyError string
  | ValueError string
  | LibraryError string

type_synonym files = "string \<rightharpoonup> string"

text \<open>
  \<open>files\<close> maps a path to the contents stored there (\<^verbatim>\<open>os.path.exists(p)\<close> is
  \<open>p \<in> dom files\<close>); \<open>stdout\<close> holds the printed lines, oldest first;
  \<open>urlretrieve_calls\<close> holds one \<open>(url, filename)\<close> entry per call of
  \<^verbatim>\<open>urllib.request.urlretrieve\<close>, oldest first.
\<close>

record world =
  files :: files
  stdout :: "string list"
  urlretrieve_calls :: "(string \<times> string) list"

definition print :: "string \<Rightarrow> world \<Rightarrow> world" where
  "print line w = w\<lparr>stdout := stdout w @ [line]\<rparr>"

definition os_path_exists :: "string \<Rightarrow> world \<Rightarrow> bool" where
  "os_path_exists filename w = (files w filename \<noteq> None)"

text \<open>
  One value of the frame that \<^verbatim>\<open>pd.read_json\<close> returns: a string, a number, or
  \<^verbatim>\<open>NaN\<close> where a record has no such key. The frame itself is its columns by name;
  a frame read from an empty JSON list has no column.
\<close>

datatype cell = Text string | Number real | NaN

type_synonym json_frame = "string \<rightharpoonup> cell list"

text \<open>
  A pandas frame built by the scripts: the column names in order, and the rows, each an
  index value with one value per column.
\<close>

record ('t, 'v) dataframe =
  columns :: "string list"
  rows :: "('t \<times> 'v list) list"

record ('t, 'v) timeseries =
  data :: "('t, 'v) dataframe"
  units :: "(string \<times> string) list"

text \<open>
  The library operations the scripts call. \<open>'d\<close> is the time object that
  \<^verbatim>\<open>parse_time\<close> returns for a string, \<open>'t\<close> is \<^verbatim>\<open>datetime\<close>.
  \<^item> \<open>parse_time\<close>: \<^verbatim>\<open>sunpy.time.parse_time(s)\<close>, which raises on a string it cannot read;
  \<^item> \<open>strftime\<close>: \<^verbatim>\<open>date.strftime(fmt)\<close>;
  \<^item> \<open>urlretrieve\<close>: \<^verbatim>\<open>urllib.request.urlretrieve(url, filename)\<close>: it returns or
    raises, and leaves the file system in some state either way;
  \<^item> \<open>open_dataset\<close>: \<^verbatim>\<open>xarray.open_dataset(file)\<close>, the variables by name
    (the argument is \<open>None\<close> when the caller passes Python's \<^verbatim>\<open>None\<close>);
  \<^item> \<open>parse_time_array\<close>: \<^verbatim>\<open>parse_time(arr).datetime\<close> on the time variable;
  \<^item> \<open>parse_time_datetime\<close>: \<^verbatim>\<open>parse_time(x).datetime\<close> on one value of a column;
  \<^item> \<open>read_json\<close>: \<^verbatim>\<open>pd.read_json(url)\<close>;
  \<^item> \<open>tie_rank\<close>: the sort behind \<^verbatim>\<open>sort_index\<close> is numpy's quicksort, which is not
    stable; \<open>tie_rank index i\<close> is the rank that it gives, among the rows with an equal
    index value, to the row at position \<open>i\<close> of a frame with that index;
  \<^item> \<open>table_write\<close>: \<^verbatim>\<open>ts.TimeSeries(x, concat=True).to_table().write(file, ...)\<close>.
  A variable of a dataset is a one-dimensional array of numbers.
\<close>

record ('d, 't) env =
  parse_time :: "string \<Rightarrow> exn + 'd"
  strftime :: "'d \<Rightarrow> string \<Rightarrow> string"
  urlretrieve :: "string \<Rightarrow> string \<Rightarrow> files \<Rightarrow> (exn + unit) \<times> files"
  open_dataset :: "string option \<Rightarrow> files \<Rightarrow> exn + (string \<rightharpoonup> real list)"
  parse_time_array :: "real list \<Rightarrow> exn + 't list"
  parse_time_datetime :: "cell \<Rightarrow> exn + 't"
  read_json :: "string \<Rightarrow> exn + json_frame"
  tie_rank :: "'t list \<Rightarrow> nat \<Rightarrow> nat"
  table_write :: "string \<Rightarrow> ('t, real) timeseries \<Rightarrow> files \<Rightarrow> (exn + unit) \<times> files"

subsection \<open>\<^verbatim>\<open>get_goes\<close> of \<^verbatim>\<open>nasa_spaceApp/geos.py\<close>\<close>

text \<open>The \<^verbatim>\<open>url\<close> assignment (lines 118 to 130), for the parsed date \<open>d\<close>.\<close>

definition get_goes_url :: "('d \<Rightarrow> string \<Rightarrow> string) \<Rightarrow> 'd \<Rightarrow> int \<Rightarrow> string \<Rightarrow> string" where
  "get_goes_url fmt d sat type =
     (case construct_path type of (path_one, path_two, version) \<Rightarrow>
        os_path_join NGDC_URL
          (''goes'' @ format_d sat @ ''/l2/data/'' @ path_one @ ''/'' @ fmt d ''%Y'' @ ''/''
             @ fmt d ''%m'' @ ''/'' @ path_two @ format_d sat @ ''_d'' @ fmt d ''%Y%m%d''
             @ version @ ''.nc''))"

text \<open>The \<^verbatim>\<open>filename\<close> assignment (lines 133 to 136).\<close>

definition get_goes_filename :: "string option \<Rightarrow> string \<Rightarrow> string" where
  "get_goes_filename path url =
     (case path of
        Some p \<Rightarrow> os_path_join p (last (split_char CHR ''/'' url))
      | None \<Rightarrow> last (split_char CHR ''/'' url))"

text \<open>
  The whole function. The download is inside \<^verbatim>\<open>try\<close> with a bare \<^verbatim>\<open>except\<close>. When
  the download returns and the file is still absent, control leaves the \<^verbatim>\<open>try\<close> and the
  function ends without a \<^verbatim>\<open>return\<close>: the value is \<^verbatim>\<open>None\<close>.
\<close>

definition get_goes ::
  "('d, 't) env \<Rightarrow> string \<Rightarrow> int \<Rightarrow> string \<Rightarrow> string option \<Rightarrow> world
     \<Rightarrow> (exn + string option) \<times> world" where
  "get_goes env date sat type path w =
     (case parse_time env date of
        Inl e \<Rightarrow> (Inl e, w)
      | Inr d \<Rightarrow>
          (let url = get_goes_url (strftime env) d sat type;
               w1 = print url w;
               filename = get_goes_filename path url
           in if os_path_exists filename w1 then (Inr (Some filename), w1)
              else
                (case urlretrieve env url filename (files w1) of (outcome, fs) \<Rightarrow>
                   (let w2 = w1\<lparr>files := fs,
                                urlretrieve_calls := urlretrieve_calls w1 @ [(url, filename)]\<rparr>
                    in case outcome of
                         Inr u \<Rightarrow>
                           (if os_path_exists filename w2 then (Inr (Some filename), w2)
                            else (Inr None, w2))
                       | Inl e \<Rightarrow> (Inr None, print ''Download failed'' w2)))))"

text \<open>The default of the \<^verbatim>\<open>type\<close> parameter.\<close>

definition default_type :: string where
  "default_type = ''xrs''"

subsection \<open>\<^verbatim>\<open>get_goes\<close> of \<^verbatim>\<open>public/geos_old.py\<close>\<close>

definition BASE_URL :: string where
  "BASE_URL = ''https://data.ngdc.noaa.gov/platforms/solar-space-observing-satellites/goes/''"

definition API_VERSION :: string where
  "API_VERSION = ''_v2-1-0''"

definition old_get_goes_url :: "('d \<Rightarrow> string \<Rightarrow> string) \<Rightarrow> 'd \<Rightarrow> int \<Rightarrow> string" where
  "old_get_goes_url fmt d sat =
     os_path_join BASE_URL
       (''goes'' @ format_d sat @ ''/l2/data/xrsf-l2-flx1s_science/'' @ fmt d ''%Y'' @ ''/''
          @ fmt d ''%m'' @ ''/sci_xrsf-l2-flx1s_g'' @ format_d sat @ ''_d'' @ fmt d ''%Y%m%d''
          @ API_VERSION @ ''.nc'')"

definition old_get_goes_filename :: "string option \<Rightarrow> string \<Rightarrow> string" where
  "old_get_goes_filename path url =
     (case path of
        Some p \<Rightarrow> os_path_join p (last (split_char CHR ''/'' url))
      | None \<Rightarrow> last (split_char CHR ''/'' url))"

definition old_get_goes ::
  "('d, 't) env \<Rightarrow> string \<Rightarrow> int \<Rightarrow> string option \<Rightarrow> world \<Rightarrow> (exn + string option) \<times> world" where
  "old_get_goes env date sat path w =
     (case parse_time env date of
        Inl e \<Rightarrow> (Inl e, w)
      | Inr d \<Rightarrow>
          (let url = old_get_goes_url (strftime env) d sat;
               filename = old_get_goes_filename path url
           in if os_path_exists filename w then (Inr (Some filename), w)
              else
                (case urlretrieve env url filename (files w) of (outcome, fs) \<Rightarrow>
                   (let w2 = w\<lparr>files := fs,
                               urlretrieve_calls := urlretrieve_calls w @ [(url, filename)]\<rparr>
                    in case outcome of
                         Inr u \<Rightarrow>
                           (if os_path_exists filename w2 then (Inr (Some filename), w2)
                            else (Inr None, w2))
                       | Inl e \<Rightarrow> (Inr None, print ''Download failed'' w2)))))"

subsection \<open>The parsing step\<close>

text \<open>
  \<^verbatim>\<open>pd.DataFrame(dict, index=...)\<close> on one-dimensional arrays. pandas takes the columns
  in the order of the dictionary. It first repeats an array of length one to the length
  of the index (\<^verbatim>\<open>_maybe_repeat\<close>), then requires the length of the index
  (\<^verbatim>\<open>require_length_match\<close>) and raises \<^verbatim>\<open>ValueError\<close> at the first column that
  has another length.
\<close>

definition maybe_repeat :: "'v list \<Rightarrow> nat \<Rightarrow> 'v list" where
  "maybe_repeat arr n = (if length arr = 1 \<and> n \<noteq> 1 then replicate n (hd arr) else arr)"

definition length_mismatch :: "nat \<Rightarrow> nat \<Rightarrow> exn" where
  "length_mismatch k n =
     ValueError (''Length of values ('' @ format_nat k @ '') does not match length of index (''
                   @ format_nat n @ '')'')"

fun homogenize :: "(string \<times> 'v list) list \<Rightarrow> nat \<Rightarrow> exn + (string \<times> 'v list) list" where
  "homogenize [] n = Inr []"
| "homogenize ((name, arr) # cols) n =
     (let val = maybe_repeat arr n in
      if length val \<noteq> n then Inl (length_mismatch (length val) n)
      else (case homogenize cols n of
              Inl e \<Rightarrow> Inl e
            | Inr arrays \<Rightarrow> Inr ((name, val) # arrays)))"

definition DataFrame :: "(string \<times> 'v list) list \<Rightarrow> 't list \<Rightarrow> exn + ('t, 'v) dataframe" where
  "DataFrame cols index =
     (case homogenize cols (length index) of
        Inl e \<Rightarrow> Inl e
      | Inr arrays \<Rightarrow>
          Inr \<lparr>columns = map fst arrays,
               rows = map (\<lambda>i. (index ! i, map (\<lambda>c. snd c ! i) arrays)) [0..<length index]\<rparr>)"

text \<open>
  \<^verbatim>\<open>df.sort_index(inplace=True)\<close>: the rows in ascending order of the index; rows with
  an equal index value come in the order of the rank that the sort gives them.
\<close>

definition sort_index ::
  "(('t::linorder) list \<Rightarrow> nat \<Rightarrow> nat) \<Rightarrow> ('t, 'v) dataframe \<Rightarrow> ('t, 'v) dataframe" where
  "sort_index rank df =
     (let index = map fst (rows df) in
      df\<lparr>rows := map snd (sort_key (\<lambda>p. (fst (snd p), rank index (fst p)))
                               (enumerate 0 (rows df)))\<rparr>)"

definition xrs_units :: "(string \<times> string) list" where
  "xrs_units = [(''xrsa'', ''W / m2''), (''xrsb'', ''W / m2'')]"

definition make_goes_timeseries ::
  "('d, 't::linorder) env \<Rightarrow> string option \<Rightarrow> files \<Rightarrow> exn + ('t, real) timeseries" where
  "make_goes_timeseries env file fs =
     (case open_dataset env file fs of
        Inl e \<Rightarrow> Inl e
      | Inr dataset \<Rightarrow>
     (case dataset ''xrsb_flux'' of
        None \<Rightarrow> Inl (KeyError ''xrsb_flux'')
      | Some xrsb \<Rightarrow>
     (case dataset ''xrsa_flux'' of
        None \<Rightarrow> Inl (KeyError ''xrsa_flux'')
      | Some xrsa \<Rightarrow>
     (case dataset ''time'' of
        None \<Rightarrow> Inl (KeyError ''time'')
      | Some time \<Rightarrow>
     (case parse_time_array env time of
        Inl e \<Rightarrow> Inl e
      | Inr tt \<Rightarrow>
     (case DataFrame [(''xrsa'', xrsa), (''xrsb'', xrsb)] tt of
        Inl e \<Rightarrow> Inl e
      | Inr df \<Rightarrow> Inr \<lparr>data = sort_index (tie_rank env) df, units = xrs_units\<rparr>))))))"

text \<open>The same function of \<^verbatim>\<open>public/geos_old.py\<close> (lines 68 to 98).\<close>

definition old_make_goes_timeseries ::
  "('d, 't::linorder) env \<Rightarrow> string option \<Rightarrow> files \<Rightarrow> exn + ('t, real) timeseries" where
  "old_make_goes_timeseries env file fs =
     (case open_dataset env file fs of
        Inl e \<Rightarrow> Inl e
      | Inr dataset \<Rightarrow>
     (case dataset ''xrsb_flux'' of
        None \<Rightarrow> Inl (KeyError ''xrsb_flux'')
      | Some xrsb \<Rightarrow>
     (case dataset ''xrsa_flux'' of
        None \<Rightarrow> Inl (KeyError ''xrsa_flux'')
      | Some xrsa \<Rightarrow>
     (case dataset ''time'' of
        None \<Rightarrow> Inl (KeyError ''time'')
      | Some time \<Rightarrow>
     (case parse_time_array env time of
        Inl e \<Rightarrow> Inl e
      | Inr tt \<Rightarrow>
     (case DataFrame [(''xrsa'', xrsa), (''xrsb'', xrsb)] tt of
        Inl e \<Rightarrow> Inl e
      | Inr df \<Rightarrow> Inr \<lparr>data = sort_index (tie_rank env) df, units = xrs_units\<rparr>))))))"

subsection \<open>\<^verbatim>\<open>read_recent_noaa\<close>\<close>

definition dict_interval :: "(string \<times> string) list" where
  "dict_interval =
     [(''7-day'', ''xrays-7-day.json''),
      (''3-day'', ''xrays-3-day.json''),
      (''1-day'', ''xrays-1-day.json''),
      (''6-hour'', ''xrays-6-hour.json'')]"

text \<open>What \<^verbatim>\<open>print\<close> shows for \<^verbatim>\<open>dict_interval.keys()\<close>.\<close>

definition quoted :: "string \<Rightarrow> string" where
  "quoted s = [CHR 0x27] @ s @ [CHR 0x27]"

fun comma_separated :: "string list \<Rightarrow> string" where
  "comma_separated [] = []"
| "comma_separated [s] = s"
| "comma_separated (s # ss) = s @ '', '' @ comma_separated ss"

definition dict_keys_repr :: "(string \<times> string) list \<Rightarrow> string" where
  "dict_keys_repr d = ''dict_keys(['' @ comma_separated (map (quoted \<circ> fst) d) @ ''])''"

text \<open>A list comprehension over a function that may raise: the first exception ends it.\<close>

fun map_raising :: "('a \<Rightarrow> exn + 'b) \<Rightarrow> 'a list \<Rightarrow> exn + 'b list" where
  "map_raising f [] = Inr []"
| "map_raising f (x # xs) =
     (case f x of
        Inl e \<Rightarrow> Inl e
      | Inr y \<Rightarrow> (case map_raising f xs of Inl e \<Rightarrow> Inl e | Inr ys \<Rightarrow> Inr (y # ys)))"

text \<open>
  \<^verbatim>\<open>frame[name]\<close> raises \<^verbatim>\<open>KeyError\<close> for a name that is not a column;
  \<^verbatim>\<open>frame[keep]\<close> keeps the rows where the boolean column holds, in every column.
\<close>

definition select_rows :: "bool list \<Rightarrow> 'a list \<Rightarrow> 'a list" where
  "select_rows keep xs = map snd (filter fst (zip keep xs))"

definition read_recent_noaa ::
  "('d, 't::linorder) env \<Rightarrow> string \<Rightarrow> world \<Rightarrow> (exn + ('t, cell) timeseries) \<times> world" where
  "read_recent_noaa env interval w =
     (let w1 = (if interval \<notin> set (map fst dict_interval)
                then print (''interval must be one of '' @ dict_keys_repr dict_interval) w
                else w)
      in
     (case map_of dict_interval interval of
        None \<Rightarrow> (Inl (KeyError interval), w1)
      | Some name \<Rightarrow>
     (let noaa_file = SWPC_URL @ ''/'' @ name in
     (case read_json env noaa_file of
        Inl e \<Rightarrow> (Inl e, w1)
      | Inr frame \<Rightarrow>
     (case frame ''energy'' of
        None \<Rightarrow> (Inl (KeyError ''energy''), w1)
      | Some energy \<Rightarrow>
     (let short = map (\<lambda>c. c = Text ''0.05-0.4nm'') energy;
          long = map (\<lambda>c. c = Text ''0.1-0.8nm'') energy
      in
     (case frame ''time_tag'' of
        None \<Rightarrow> (Inl (KeyError ''time_tag''), w1)
      | Some time_tag \<Rightarrow>
     (case map_raising (parse_time_datetime env) (select_rows short time_tag) of
        Inl e \<Rightarrow> (Inl e, w1)
      | Inr time_array \<Rightarrow>
     (case frame ''flux'' of
        None \<Rightarrow> (Inl (KeyError ''flux''), w1)
      | Some flux \<Rightarrow>
     (case DataFrame [(''xrsa'', select_rows short flux), (''xrsb'', select_rows long flux)]
             time_array of
        Inl e \<Rightarrow> (Inl e, w1)
      | Inr df \<Rightarrow>
          (Inr \<lparr>data = sort_index (tie_rank env) df, units = xrs_units\<rparr>, w1)))))))))))"

definition default_interval :: string where
  "default_interval = ''7-day''"

subsection \<open>\<^verbatim>\<open>get_goes_by_date\<close>\<close>

definition satList :: "int list" where
  "satList = [16, 17, 18]"

definition typeList :: "string list" where
  "typeList = [''xrs-x1s'']"

definition dateList :: "string list" where
  "dateList =
     [''2022-10-02'', ''2022-10-01'', ''2022-09-30'', ''2022-09-29'', ''2022-09-28'',
      ''2022-09-27'', ''2022-09-26'', ''2022-09-25'', ''2022-09-24'', ''2022-09-23'',
      ''2022-09-22'', ''2022-09-21'', ''2022-09-20'']"

definition output_file_name :: "string \<Rightarrow> int \<Rightarrow> string \<Rightarrow> string" where
  "output_file_name type sat date =
     DATA_PATH @ ''/goes-'' @ format_d sat @ ''-'' @ type @ ''-''
       @ remove_char CHR ''-'' date @ ''.json''"

text \<open>
  The body of the \<^verbatim>\<open>try\<close> (lines 244 to 254) for one combination: \<open>Inl\<close> when a
  statement raises, with the world as that statement left it.
\<close>

definition try_body ::
  "('d, 't::linorder) env \<Rightarrow> string \<Rightarrow> int \<Rightarrow> string \<Rightarrow> world \<Rightarrow> (exn + unit) \<times> world" where
  "try_body env type sat date w =
     (let output_file = output_file_name type sat date in
     (case get_goes env date sat type (Some DATA_PATH) w of
        (Inl e, w1) \<Rightarrow> (Inl e, w1)
      | (Inr file, w1) \<Rightarrow>
     (case make_goes_timeseries env file (files w1) of
        Inl e \<Rightarrow> (Inl e, w1)
      | Inr goes_xrs \<Rightarrow>
     (case table_write env output_file goes_xrs (files w1) of
        (Inl e, fs) \<Rightarrow> (Inl e, w1\<lparr>files := fs\<rparr>)
      | (Inr u, fs) \<Rightarrow> (Inr (), print (''  ==> '' @ output_file) (w1\<lparr>files := fs\<rparr>))))))"

text \<open>
  The three nested \<^verbatim>\<open>for\<close> loops. \<^verbatim>\<open>except: continue\<close> goes on with the next date in
  the world the failed body left.
\<close>

fun for_date :: "('d, 't::linorder) env \<Rightarrow> string \<Rightarrow> int \<Rightarrow> string list \<Rightarrow> world \<Rightarrow> world" where
  "for_date env type sat [] w = w"
| "for_date env type sat (date # dates) w =
     (case try_body env type sat date w of
        (Inl e, w1) \<Rightarrow> for_date env type sat dates w1
      | (Inr u, w1) \<Rightarrow> for_date env type sat dates w1)"

fun for_sat :: "('d, 't::linorder) env \<Rightarrow> string \<Rightarrow> int list \<Rightarrow> world \<Rightarrow> world" where
  "for_sat env type [] w = w"
| "for_sat env type (sat # sats) w = for_sat env type sats (for_date env type sat dateList w)"

fun for_type :: "('d, 't::linorder) env \<Rightarrow> string list \<Rightarrow> world \<Rightarrow> world" where
  "for_type env [] w = w"
| "for_type env (type # types) w = for_type env types (for_sat env type satList w)"

definition get_goes_by_date :: "('d, 't::linorder) env \<Rightarrow> world \<Rightarrow> world" where
  "get_goes_by_date env w = for_type env typeList w"

text \<open>
  The combinations in the order the loops reach them, and the worlds the loop goes
  through: \<open>after env cs w\<close> is the world once the combinations \<open>cs\<close> have been tried
  in turn from \<open>w\<close>, whatever each of them did.
\<close>

definition combinations :: "(string \<times> int \<times> string) list" where
  "combinations =
     concat (map (\<lambda>type. concat (map (\<lambda>sat. map (\<lambda>date. (type, sat, date)) dateList) satList))
       typeList)"

fun after :: "('d, 't::linorder) env \<Rightarrow> (string \<times> int \<times> string) list \<Rightarrow> world \<Rightarrow> world" where
  "after env [] w = w"
| "after env ((type, sat, date) # cs) w = after env cs (snd (try_body env type sat date w))"

subsection \<open>A concrete instance of the libraries\<close>

text \<open>
  A small instance, to run the functions on: a parsed date is the ISO string itself, a
  \<^verbatim>\<open>datetime\<close> is an integer, the server has every file but the one at
  \<open>demo_missing_url\<close>, every stored file holds \<open>demo_dataset\<close> (whose second flux
  variable has a single value), the SWPC endpoint serves \<open>demo_frame\<close>, and writing a
  table always succeeds.
\<close>

definition demo_strftime :: "string \<Rightarrow> string \<Rightarrow> string" where
  "demo_strftime d fmt =
     (if fmt = ''%Y'' then take 4 d
      else if fmt = ''%m'' then take 2 (drop 5 d)
      else if fmt = ''%Y%m%d'' then remove_char CHR ''-'' d
      else fmt)"

definition demo_missing_url :: string where
  "demo_missing_url =
     ''https://data.ngdc.noaa.gov/platforms/solar-space-observing-satellites/goes/goes16/l2/data/xrsf-l2-flx1s_science/2022/10/sci_xrsf-l2-flx1s_g16_d20221002_v2-1-0.nc''"

definition demo_dataset :: "string \<rightharpoonup> real list" where
  "demo_dataset =
     map_of [(''xrsa_flux'', [1, 2, 3]), (''xrsb_flux'', [4]), (''time'', [30, 10, 20])]"

definition demo_frame :: json_frame where
  "demo_frame =
     map_of
       [(''time_tag'', [Text ''22'', Text ''22'', Text ''1'']),
        (''energy'', [Text ''0.05-0.4nm'', Text ''0.1-0.8nm'', Text ''0.05-0.4nm'']),
        (''flux'', [Number 1, Number 2, Number 3])]"

definition demo_env :: "(string, int) env" where
  "demo_env =
     \<lparr>parse_time = (\<lambda>s. if length s = 10 then Inr s else Inl (ValueError s)),
      strftime = demo_strftime,
      urlretrieve = (\<lambda>url filename fs.
        if url = demo_missing_url then (Inl (LibraryError ''HTTP Error 404: Not Found''), fs)
        else (Inr (), fs(filename \<mapsto> ''netcdf''))),
      open_dataset = (\<lambda>file fs.
        case file of
          None \<Rightarrow> Inl (ValueError ''no engine'')
        | Some f \<Rightarrow> (case fs f of None \<Rightarrow> Inl (LibraryError ''No such file'')
                     | Some c \<Rightarrow> Inr demo_dataset)),
      parse_time_array = (\<lambda>xs. Inr (map floor xs)),
      parse_time_datetime = (\<lambda>c.
        case c of Text s \<Rightarrow> Inr (int (length s)) | _ \<Rightarrow> Inl (ValueError ''not a time'')),
      read_json = (\<lambda>url. Inr demo_frame),
      tie_rank = (\<lambda>index i. i),
      table_write = (\<lambda>file ts fs. (Inr (), fs(file \<mapsto> ''json'')))\<rparr>"

definition demo_world :: world where
  "demo_world = \<lparr>files = Map.empty, stdout = [], urlretrieve_calls = []\<rparr>"

text \<open>A world in which the file for GOES-16 on 2022-10-01 is already in the working directory.\<close>

definition w_cached :: world where
  "w_cached =
     demo_world\<lparr>files := [''sci_xrsf-l2-flx1s_g16_d20221001_v2-1-0.nc'' \<mapsto> ''cached'']\<rparr>"

text \<open>The same libraries, with a download that returns without leaving a file.\<close>

definition demo_env_no_file :: "(string, int) env" where
  "demo_env_no_file = demo_env\<lparr>urlretrieve := (\<lambda>url filename fs. (Inr (), fs))\<rparr>"

text \<open>
  The world after \<^verbatim>\<open>get_goes\<close> has downloaded that file into an empty working directory,
  for the new script and for the old one (which prints nothing).
\<close>

definition w_fetched :: world where
  "w_fetched =
     \<lparr>files = [''sci_xrsf-l2-flx1s_g16_d20221001_v2-1-0.nc'' \<mapsto> ''netcdf''],
      stdout = [''https://data.ngdc.noaa.gov/platforms/solar-space-observing-satellites/goes/goes16/l2/data/xrsf-l2-flx1s_science/2022/10/sci_xrsf-l2-flx1s_g16_d20221001_v2-1-0.nc''],
      urlretrieve_calls = [(''https://data.ngdc.noaa.gov/platforms/solar-space-observing-satellites/goes/goes16/l2/data/xrsf-l2-flx1s_science/2022/10/sci_xrsf-l2-flx1s_g16_d20221001_v2-1-0.nc'', ''sci_xrsf-l2-flx1s_g16_d20221001_v2-1-0.nc'')]\<rparr>"

definition w_fetched_old :: world where
  "w_fetched_old =
     \<lparr>files = [''sci_xrsf-l2-flx1s_g16_d20221001_v2-1-0.nc'' \<mapsto> ''netcdf''],
      stdout = [],
      urlretrieve_calls = [(''https://data.ngdc.noaa.gov/platforms/solar-space-observing-satellites/goes/goes16/l2/data/xrsf-l2-flx1s_science/2022/10/sci_xrsf-l2-flx1s_g16_d20221001_v2-1-0.nc'', ''sci_xrsf-l2-flx1s_g16_d20221001_v2-1-0.nc'')]\<rparr>"

text \<open>
  The world after the first combination of \<^verbatim>\<open>get_goes_by_date\<close>, whose download fails.
\<close>

definition w_failed :: world where
  "w_failed =
     \<lparr>files = Map.empty,
      stdout = [demo_missing_url, ''Download failed''],
      urlretrieve_calls =
        [(demo_missing_url, ''nasa_spaceApp/data/sci_xrsf-l2-flx1s_g16_d20221002_v2-1-0.nc'')]\<rparr>"

section \<open>Properties\<close>

subsection \<open>Helper facts\<close>

lemma split_char_not_empty: "split_char sep s \<noteq> []"
  by (induction s) (auto split: list.splits)

lemma construct_path_in_table:
  "construct_path type = (f1, f2, f3) \<Longrightarrow> [f1, f2, f3] \<in> set fragment_table"
  by (auto simp: construct_path_def fragment_table_def XRS_X1S_def XRS_SUM_def XRS_LOC_def
      XRS_DET_def XRS_KD1_def EPHE_def EUV_AVG1D_def EUV_AVG1M_def MAG_HI_def split: if_splits)

lemma os_path_join_NGDC: "os_path_join NGDC_URL (CHR ''g'' # rest) = NGDC_URL @ CHR ''g'' # rest"
  by (simp add: os_path_join_def NGDC_URL_def)

lemma get_goes_url_eq:
  "construct_path type = (f1, f2, f3) \<Longrightarrow>
   get_goes_url fmt d sat type =
     NGDC_URL @ ''goes'' @ format_d sat @ ''/l2/data/'' @ f1 @ ''/'' @ fmt d ''%Y'' @ ''/''
       @ fmt d ''%m'' @ ''/'' @ f2 @ format_d sat @ ''_d'' @ fmt d ''%Y%m%d'' @ f3 @ ''.nc''"
  by (simp add: get_goes_url_def os_path_join_NGDC)

lemma files_print [simp]: "files (print line w) = files w"
  by (simp add: print_def)

lemma calls_print [simp]: "urlretrieve_calls (print line w) = urlretrieve_calls w"
  by (simp add: print_def)

lemma stdout_print [simp]: "stdout (print line w) = stdout w @ [line]"
  by (simp add: print_def)

lemma os_path_exists_print [simp]: "os_path_exists f (print line w) = os_path_exists f w"
  by (simp add: os_path_exists_def)

lemma get_goes_parse_raises:
  "parse_time env date = Inl e \<Longrightarrow> get_goes env date sat type path w = (Inl e, w)"
  by (simp add: get_goes_def)

lemma get_goes_exists:
  assumes "parse_time env date = Inr d"
    and "url = get_goes_url (strftime env) d sat type"
    and "filename = get_goes_filename path url"
    and "os_path_exists filename w"
  shows "get_goes env date sat type path w = (Inr (Some filename), print url w)"
  using assms by (simp add: get_goes_def Let_def)

lemma get_goes_download_raises:
  assumes "parse_time env date = Inr d"
    and "url = get_goes_url (strftime env) d sat type"
    and "filename = get_goes_filename path url"
    and "\<not> os_path_exists filename w"
    and "urlretrieve env url filename (files w) = (Inl e, fs)"
  shows "get_goes env date sat type path w =
     (Inr None,
      w\<lparr>files := fs, stdout := stdout w @ [url, ''Download failed''],
        urlretrieve_calls := urlretrieve_calls w @ [(url, filename)]\<rparr>)"
  using assms by (simp add: get_goes_def Let_def print_def os_path_exists_def)

lemma get_goes_download_returns:
  assumes "parse_time env date = Inr d"
    and "url = get_goes_url (strftime env) d sat type"
    and "filename = get_goes_filename path url"
    and "\<not> os_path_exists filename w"
    and "urlretrieve env url filename (files w) = (Inr u, fs)"
  shows "get_goes env date sat type path w =
     (if fs filename \<noteq> None then Inr (Some filename) else Inr None,
      w\<lparr>files := fs, stdout := stdout w @ [url],
        urlretrieve_calls := urlretrieve_calls w @ [(url, filename)]\<rparr>)"
  using assms by (simp add: get_goes_def Let_def print_def os_path_exists_def)

lemma old_get_goes_parse_raises:
  "parse_time env date = Inl e \<Longrightarrow> old_get_goes env date sat path w = (Inl e, w)"
  by (simp add: old_get_goes_def)

lemma old_get_goes_exists:
  assumes "parse_time env date = Inr d"
    and "url = old_get_goes_url (strftime env) d sat"
    and "filename = old_get_goes_filename path url"
    and "os_path_exists filename w"
  shows "old_get_goes env date sat path w = (Inr (Some filename), w)"
  using assms by (simp add: old_get_goes_def Let_def)

lemma old_get_goes_download_raises:
  assumes "parse_time env date = Inr d"
    and "url = old_get_goes_url (strftime env) d sat"
    and "filename = old_get_goes_filename path url"
    and "\<not> os_path_exists filename w"
    and "urlretrieve env url filename (files w) = (Inl e, fs)"
  shows "old_get_goes env date sat path w =
     (Inr None,
      w\<lparr>files := fs, stdout := stdout w @ [''Download failed''],
        urlretrieve_calls := urlretrieve_calls w @ [(url, filename)]\<rparr>)"
  using assms by (simp add: old_get_goes_def Let_def print_def os_path_exists_def)

lemma old_get_goes_download_returns:
  assumes "parse_time env date = Inr d"
    and "url = old_get_goes_url (strftime env) d sat"
    and "filename = old_get_goes_filename path url"
    and "\<not> os_path_exists filename w"
    and "urlretrieve env url filename (files w) = (Inr u, fs)"
  shows "old_get_goes env date sat path w =
     (if fs filename \<noteq> None then Inr (Some filename) else Inr None,
      w\<lparr>files := fs, urlretrieve_calls := urlretrieve_calls w @ [(url, filename)]\<rparr>)"
  using assms by (simp add: old_get_goes_def Let_def os_path_exists_def)

lemma length_split_char:
  "length (split_char sep s) = Suc (length (filter (\<lambda>c. c = sep) s))"
  by (induction s) (auto split: list.splits)

lemma split_char_single: "split_char sep s = [seg] \<Longrightarrow> sep \<notin> set s"
proof -
  assume "split_char sep s = [seg]"
  then have "length (split_char sep s) = 1" by simp
  then have "filter (\<lambda>c. c = sep) s = []" by (simp add: length_split_char)
  then show ?thesis by (auto simp add: filter_empty_conv)
qed

lemma split_char_many: "split_char sep s = seg # seg' # segs \<Longrightarrow> sep \<in> set s"
proof -
  assume "split_char sep s = seg # seg' # segs"
  then have "length (split_char sep s) \<ge> 2" by simp
  then have "filter (\<lambda>c. c = sep) s \<noteq> []" by (auto simp add: length_split_char)
  then show ?thesis by (auto simp add: filter_empty_conv)
qed

lemma last_split_char:
  "last (split_char sep s) = rev (takeWhile (\<lambda>c. c \<noteq> sep) (rev s))"
proof (induction s)
  case Nil
  then show ?case by simp
next
  case (Cons c cs)
  show ?case
  proof (cases "c = sep")
    case True
    then show ?thesis using Cons split_char_not_empty [of sep cs]
      by (auto simp: takeWhile_append)
  next
    case False
    show ?thesis
    proof (cases "split_char sep cs")
      case Nil
      then show ?thesis using split_char_not_empty [of sep cs] by simp
    next
      case (Cons seg segs)
      show ?thesis
      proof (cases segs)
        case Nil
        with Cons have "sep \<notin> set cs" using split_char_single by fastforce
        then have tw: "takeWhile (\<lambda>c. c \<noteq> sep) (rev cs) = rev cs"
          by (auto simp: takeWhile_eq_all_conv)
        have "seg = rev (takeWhile (\<lambda>c. c \<noteq> sep) (rev cs))"
          using Cons Nil Cons.IH by simp
        then have seg: "seg = cs"
          unfolding tw by simp
        have "takeWhile (\<lambda>c. c \<noteq> sep) (rev (c # cs)) = rev cs @ [c]"
          using \<open>sep \<notin> set cs\<close> \<open>c \<noteq> sep\<close> by (auto simp: takeWhile_eq_all_conv)
        then have A: "rev (takeWhile (\<lambda>c. c \<noteq> sep) (rev (c # cs))) = c # cs"
          by (simp only: rev_append rev_rev_ident rev.simps append.simps)
        have B: "last (split_char sep (c # cs)) = c # seg"
          using \<open>c \<noteq> sep\<close> Cons Nil by simp
        show ?thesis by (simp only: A B seg)
      next
        case (Cons seg' segs')
        with \<open>split_char sep cs = seg # segs\<close> have "sep \<in> set cs"
          using split_char_many by fastforce
        then show ?thesis using \<open>c \<noteq> sep\<close> \<open>split_char sep cs = seg # segs\<close> Cons Cons.IH
          by (auto simp: takeWhile_append)
      qed
    qed
  qed
qed

lemma construct_path_selects_row:
  assumes "i < length recognized_types"
    and "construct_path (recognized_types ! i) = (f1, f2, f3)"
  shows "fragment_table ! i = [f1, f2, f3]"
proof -
  from assms(1) have "i \<in> {0, 1, 2, 3, 4, 5, 6, 7, 8}"
    by (auto simp: recognized_types_def)
  with assms(2) show ?thesis
    by (auto simp: recognized_types_def fragment_table_def construct_path_def
        XRS_X1S_def XRS_SUM_def XRS_LOC_def XRS_DET_def XRS_KD1_def EPHE_def EUV_AVG1D_def
        EUV_AVG1M_def MAG_HI_def)
qed

lemma old_get_goes_url_eq:
  "old_get_goes_url fmt d sat = get_goes_url fmt d sat default_type"
  by (simp add: old_get_goes_url_def get_goes_url_def default_type_def construct_path_def
      XRS_X1S_def BASE_URL_def NGDC_URL_def API_VERSION_def)

lemma old_get_goes_filename_eq:
  "old_get_goes_filename path url = get_goes_filename path url"
  by (simp add: old_get_goes_filename_def get_goes_filename_def)

lemma demo_parse_time: "parse_time demo_env ''2022-10-01'' = Inr ''2022-10-01''"
  by (simp add: demo_env_def)

lemma demo_url:
  "get_goes_url (strftime demo_env) ''2022-10-01'' 16 ''xrs-x1s'' =
   ''https://data.ngdc.noaa.gov/platforms/solar-space-observing-satellites/goes/goes16/l2/data/xrsf-l2-flx1s_science/2022/10/sci_xrsf-l2-flx1s_g16_d20221001_v2-1-0.nc''"
  by (simp add: get_goes_url_def construct_path_def XRS_X1S_def os_path_join_def NGDC_URL_def
      format_d_def format_nat.simps digit_char_def demo_env_def demo_strftime_def remove_char_def)

lemma demo_filename:
  "get_goes_filename None
     ''https://data.ngdc.noaa.gov/platforms/solar-space-observing-satellites/goes/goes16/l2/data/xrsf-l2-flx1s_science/2022/10/sci_xrsf-l2-flx1s_g16_d20221001_v2-1-0.nc''
   = ''sci_xrsf-l2-flx1s_g16_d20221001_v2-1-0.nc''"
  by (simp add: get_goes_filename_def last_split_char)

lemma get_goes_url_default:
  "get_goes_url fmt d sat default_type = get_goes_url fmt d sat ''xrs-x1s''"
  by (simp add: get_goes_url_def construct_path_def default_type_def)

lemma demo_parse_time_missing: "parse_time demo_env ''2022-10-02'' = Inr ''2022-10-02''"
  by (simp add: demo_env_def)

lemma demo_url_missing:
  "get_goes_url (strftime demo_env) ''2022-10-02'' 16 ''xrs-x1s'' = demo_missing_url"
  by (simp add: get_goes_url_def construct_path_def XRS_X1S_def os_path_join_def NGDC_URL_def
      format_d_def format_nat.simps digit_char_def demo_env_def demo_strftime_def remove_char_def
      demo_missing_url_def)

lemma demo_filename_missing:
  "get_goes_filename None demo_missing_url = ''sci_xrsf-l2-flx1s_g16_d20221002_v2-1-0.nc''"
  by (simp add: get_goes_filename_def last_split_char demo_missing_url_def)

lemma demo_urlretrieve_missing:
  "urlretrieve demo_env demo_missing_url filename fs
     = (Inl (LibraryError ''HTTP Error 404: Not Found''), fs)"
  by (simp add: demo_env_def)

lemma demo_url_no_file:
  "get_goes_url (strftime demo_env_no_file) ''2022-10-01'' 16 ''xrs-x1s'' =
   ''https://data.ngdc.noaa.gov/platforms/solar-space-observing-satellites/goes/goes16/l2/data/xrsf-l2-flx1s_science/2022/10/sci_xrsf-l2-flx1s_g16_d20221001_v2-1-0.nc''"
  using demo_url by (simp add: demo_env_no_file_def)

lemma demo_get_goes_fetched:
  "get_goes demo_env ''2022-10-01'' 16 ''xrs-x1s'' None demo_world
     = (Inr (Some ''sci_xrsf-l2-flx1s_g16_d20221001_v2-1-0.nc''), w_fetched)"
proof -
  have n: "\<not> os_path_exists ''sci_xrsf-l2-flx1s_g16_d20221001_v2-1-0.nc'' demo_world"
    by (simp add: os_path_exists_def demo_world_def)
  have r: "urlretrieve demo_env
      ''https://data.ngdc.noaa.gov/platforms/solar-space-observing-satellites/goes/goes16/l2/data/xrsf-l2-flx1s_science/2022/10/sci_xrsf-l2-flx1s_g16_d20221001_v2-1-0.nc''
      ''sci_xrsf-l2-flx1s_g16_d20221001_v2-1-0.nc'' (files demo_world)
      = (Inr (), [''sci_xrsf-l2-flx1s_g16_d20221001_v2-1-0.nc'' \<mapsto> ''netcdf''])"
    by (simp add: demo_env_def demo_missing_url_def demo_world_def)
  show ?thesis
    using get_goes_download_returns [OF demo_parse_time demo_url [symmetric]
        demo_filename [symmetric] n r]
    by (simp add: w_fetched_def demo_world_def)
qed

lemma demo_old_url:
  "old_get_goes_url (strftime demo_env) ''2022-10-01'' 16 =
   ''https://data.ngdc.noaa.gov/platforms/solar-space-observing-satellites/goes/goes16/l2/data/xrsf-l2-flx1s_science/2022/10/sci_xrsf-l2-flx1s_g16_d20221001_v2-1-0.nc''"
  by (simp only: old_get_goes_url_eq get_goes_url_default demo_url)

lemma demo_old_filename:
  "old_get_goes_filename None
     ''https://data.ngdc.noaa.gov/platforms/solar-space-observing-satellites/goes/goes16/l2/data/xrsf-l2-flx1s_science/2022/10/sci_xrsf-l2-flx1s_g16_d20221001_v2-1-0.nc''
   = ''sci_xrsf-l2-flx1s_g16_d20221001_v2-1-0.nc''"
  by (simp only: old_get_goes_filename_eq demo_filename)

lemma demo_old_get_goes_fetched:
  "old_get_goes demo_env ''2022-10-01'' 16 None demo_world
     = (Inr (Some ''sci_xrsf-l2-flx1s_g16_d20221001_v2-1-0.nc''), w_fetched_old)"
proof -
  have n: "\<not> os_path_exists ''sci_xrsf-l2-flx1s_g16_d20221001_v2-1-0.nc'' demo_world"
    by (simp add: os_path_exists_def demo_world_def)
  have r: "urlretrieve demo_env
      ''https://data.ngdc.noaa.gov/platforms/solar-space-observing-satellites/goes/goes16/l2/data/xrsf-l2-flx1s_science/2022/10/sci_xrsf-l2-flx1s_g16_d20221001_v2-1-0.nc''
      ''sci_xrsf-l2-flx1s_g16_d20221001_v2-1-0.nc'' (files demo_world)
      = (Inr (), [''sci_xrsf-l2-flx1s_g16_d20221001_v2-1-0.nc'' \<mapsto> ''netcdf''])"
    by (simp add: demo_env_def demo_missing_url_def demo_world_def)
  show ?thesis
    using old_get_goes_download_returns [OF demo_parse_time demo_old_url [symmetric]
        demo_old_filename [symmetric] n r]
    by (simp add: w_fetched_old_def demo_world_def)
qed

lemma demo_no_file_old:
  "old_get_goes demo_env_no_file ''2022-10-01'' 16 None demo_world
     = (Inr None,
        \<lparr>files = Map.empty, stdout = [],
         urlretrieve_calls = [(''https://data.ngdc.noaa.gov/platforms/solar-space-observing-satellites/goes/goes16/l2/data/xrsf-l2-flx1s_science/2022/10/sci_xrsf-l2-flx1s_g16_d20221001_v2-1-0.nc'', ''sci_xrsf-l2-flx1s_g16_d20221001_v2-1-0.nc'')]\<rparr>)"
proof -
  have p: "parse_time demo_env_no_file ''2022-10-01'' = Inr ''2022-10-01''"
    by (simp add: demo_env_no_file_def demo_env_def)
  have s: "strftime demo_env_no_file = strftime demo_env"
    by (simp add: demo_env_no_file_def)
  have n: "\<not> os_path_exists ''sci_xrsf-l2-flx1s_g16_d20221001_v2-1-0.nc'' demo_world"
    by (simp add: os_path_exists_def demo_world_def)
  have r: "urlretrieve demo_env_no_file
       ''https://data.ngdc.noaa.gov/platforms/solar-space-observing-satellites/goes/goes16/l2/data/xrsf-l2-flx1s_science/2022/10/sci_xrsf-l2-flx1s_g16_d20221001_v2-1-0.nc''
       ''sci_xrsf-l2-flx1s_g16_d20221001_v2-1-0.nc'' (files demo_world)
     = (Inr (), Map.empty)"
    by (simp add: demo_env_no_file_def demo_world_def)
  show ?thesis
    using old_get_goes_download_returns [OF p demo_old_url [symmetric, folded s]
        demo_old_filename [symmetric] n r]
    by (simp add: demo_world_def)
qed


lemma homogenize_lengths:
  "homogenize cols n = Inr arrays \<Longrightarrow> list_all (\<lambda>c. length (snd c) = n) arrays"
  by (induction cols n arbitrary: arrays rule: homogenize.induct)
    (auto simp: Let_def split: if_splits sum.splits)






















lemma demo_read_recent_noaa_empty:
  "read_recent_noaa (demo_env\<lparr>read_json := \<lambda>url. Inr Map.empty\<rparr>) default_interval demo_world
     = (Inl (KeyError ''energy''), demo_world)"
  by (simp add: read_recent_noaa_def default_interval_def dict_interval_def demo_env_def)

lemma after_append: "after env (cs @ cs') w = after env cs' (after env cs w)"
  by (induction env cs w rule: after.induct) auto

lemma for_date_after:
  "for_date env type sat dates w = after env (map (\<lambda>date. (type, sat, date)) dates) w"
  by (induction dates arbitrary: w) (auto split: prod.splits sum.splits)

lemma for_sat_after:
  "for_sat env type sats w =
     after env (concat (map (\<lambda>sat. map (\<lambda>date. (type, sat, date)) dateList) sats)) w"
  by (induction sats arbitrary: w) (auto simp: after_append for_date_after)

lemma for_type_after:
  "for_type env types w =
     after env
       (concat (map (\<lambda>type. concat (map (\<lambda>sat. map (\<lambda>date. (type, sat, date)) dateList) satList))
          types)) w"
  by (induction types arbitrary: w) (auto simp: after_append for_sat_after)

lemma get_goes_by_date_after: "get_goes_by_date env w = after env combinations w"
  by (simp add: get_goes_by_date_def combinations_def for_type_after)

lemma length_combinations: "length combinations = 39"
  by (simp add: combinations_def typeList_def satList_def dateList_def)

lemma try_body_completes:
  assumes "try_body env type sat date w = (Inr u, w')"
  shows "\<exists>file goes_xrs w1.
           get_goes env date sat type (Some DATA_PATH) w = (Inr file, w1)
         \<and> make_goes_timeseries env file (files w1) = Inr goes_xrs
         \<and> table_write env (output_file_name type sat date) goes_xrs (files w1)
             = (Inr (), files w')"
  using assms
  by (auto simp: try_body_def Let_def split: prod.splits sum.splits)

lemma after_nth:
  assumes "i < length cs" and "cs ! i = (type, sat, date)"
  shows "after env cs w =
           after env (drop (Suc i) cs) (snd (try_body env type sat date (after env (take i cs) w)))"
proof -
  have "after env (take i cs @ (type, sat, date) # drop (Suc i) cs) w = after env cs w"
    using assms id_take_nth_drop [of i cs] by metis
  then show ?thesis
    by (simp add: after_append)
qed

lemma combinations_eval:
  "combinations =
     (''xrs-x1s'', 16, ''2022-10-02'') # (''xrs-x1s'', 16, ''2022-10-01'')
       # drop 2 combinations"
  by (simp add: combinations_def typeList_def satList_def dateList_def)

lemma demo_filename_missing_path:
  "get_goes_filename (Some DATA_PATH) demo_missing_url
     = ''nasa_spaceApp/data/sci_xrsf-l2-flx1s_g16_d20221002_v2-1-0.nc''"
  by (simp add: get_goes_filename_def last_split_char demo_missing_url_def DATA_PATH_def
      APP_NAME_def os_path_join_def)

lemma demo_get_goes_failed:
  "get_goes demo_env ''2022-10-02'' 16 ''xrs-x1s'' (Some DATA_PATH) demo_world
     = (Inr None, w_failed)"
proof -
  have n: "\<not> os_path_exists
      ''nasa_spaceApp/data/sci_xrsf-l2-flx1s_g16_d20221002_v2-1-0.nc'' demo_world"
    by (simp add: os_path_exists_def demo_world_def)
  show ?thesis
    using get_goes_download_raises [OF demo_parse_time_missing demo_url_missing [symmetric]
        demo_filename_missing_path [symmetric] n demo_urlretrieve_missing]
    by (simp add: w_failed_def demo_world_def)
qed

lemma demo_try_body_failed:
  "try_body demo_env ''xrs-x1s'' 16 ''2022-10-02'' demo_world
     = (Inl (ValueError ''no engine''), w_failed)"
  by (simp add: try_body_def demo_get_goes_failed make_goes_timeseries_def)
    (simp add: demo_env_def)

lemma demo_try_body_next:
  "fst (try_body demo_env ''xrs-x1s'' 16 ''2022-10-01'' w_failed) = Inr () \<and>
   files (snd (try_body demo_env ''xrs-x1s'' 16 ''2022-10-01'' w_failed))
     ''nasa_spaceApp/data/goes-16-xrs-x1s-20221001.json'' = Some ''json''"
  by code_simp

subsection \<open>URL construction\<close>

text \<open>
  Claim C1. Once the date string is parsed, the URL that \<^verbatim>\<open>get_goes\<close> builds is
  \<open>NGDC_URL\<close> followed by
  \<^verbatim>\<open>goes{sat}/l2/data/{fragment1}/{YYYY}/{MM}/{fragment2}{sat}_d{YYYYMMDD}{fragment3}.nc\<close>,
  where the three fragments are what \<^verbatim>\<open>construct_path\<close> returns for the type string,
  a row of the fragment table (the \<open>i\<close>-th row for the \<open>i\<close>-th recognized type), and
  the three date parts are \<^verbatim>\<open>strftime\<close> of the parsed date. That URL is the line the
  function prints first, and the only URL it can hand to \<^verbatim>\<open>urlretrieve\<close>.
\<close>

theorem get_goes_url_from_table:
  assumes "parse_time env date = Inr d"
    and "construct_path type = (fragment1, fragment2, fragment3)"
    and "url = NGDC_URL @ ''goes'' @ format_d sat @ ''/l2/data/'' @ fragment1 @ ''/''
           @ strftime env d ''%Y'' @ ''/'' @ strftime env d ''%m'' @ ''/'' @ fragment2
           @ format_d sat @ ''_d'' @ strftime env d ''%Y%m%d'' @ fragment3 @ ''.nc''"
  shows "[fragment1, fragment2, fragment3] \<in> set fragment_table
     \<and> (i < length recognized_types \<and> type = recognized_types ! i \<longrightarrow>
          fragment_table ! i = [fragment1, fragment2, fragment3])
     \<and> get_goes_url (strftime env) d sat type = url
     \<and> (\<exists>out. stdout (snd (get_goes env date sat type path w)) = stdout w @ url # out)
     \<and> set (urlretrieve_calls (snd (get_goes env date sat type path w)))
         \<subseteq> set (urlretrieve_calls w) \<union> {(url, get_goes_filename path url)}"
proof -
  have u: "get_goes_url (strftime env) d sat type = url"
    using assms(2,3) by (simp add: get_goes_url_eq)
  have "\<exists>out. stdout (snd (get_goes env date sat type path w)) = stdout w @ url # out"
    using assms(1) u
    by (auto simp: get_goes_def Let_def print_def split: prod.splits sum.splits)
  moreover have "set (urlretrieve_calls (snd (get_goes env date sat type path w)))
         \<subseteq> set (urlretrieve_calls w) \<union> {(url, get_goes_filename path url)}"
    using assms(1) u
    by (auto simp: get_goes_def Let_def print_def split: prod.splits sum.splits)
  moreover have "i < length recognized_types \<and> type = recognized_types ! i \<longrightarrow>
          fragment_table ! i = [fragment1, fragment2, fragment3]"
    using construct_path_selects_row [of i fragment1 fragment2 fragment3] assms(2) by blast
  ultimately show ?thesis
    using u construct_path_in_table [OF assms(2)] by blast
qed

theorem get_goes_url_from_table_witness:
  "parse_time demo_env ''2022-10-01'' = Inr ''2022-10-01'' \<and>
   construct_path ''xrs-x1s'' = (''xrsf-l2-flx1s_science'', ''sci_xrsf-l2-flx1s_g'', ''_v2-1-0'') \<and>
   0 < length recognized_types \<and> ''xrs-x1s'' = recognized_types ! 0 \<and>
   fragment_table ! 0 = [''xrsf-l2-flx1s_science'', ''sci_xrsf-l2-flx1s_g'', ''_v2-1-0''] \<and>
   [''xrsf-l2-flx1s_science'', ''sci_xrsf-l2-flx1s_g'', ''_v2-1-0''] \<in> set fragment_table \<and>
   get_goes_url (strftime demo_env) ''2022-10-01'' 16 ''xrs-x1s'' =
     ''https://data.ngdc.noaa.gov/platforms/solar-space-observing-satellites/goes/goes16/l2/data/xrsf-l2-flx1s_science/2022/10/sci_xrsf-l2-flx1s_g16_d20221001_v2-1-0.nc''"
proof -
  have p: "parse_time demo_env ''2022-10-01'' = Inr ''2022-10-01''"
    by (rule demo_parse_time)
  have c: "construct_path ''xrs-x1s'' =
      (''xrsf-l2-flx1s_science'', ''sci_xrsf-l2-flx1s_g'', ''_v2-1-0'')"
    by (simp add: construct_path_def XRS_X1S_def)
  have u: "''https://data.ngdc.noaa.gov/platforms/solar-space-observing-satellites/goes/goes16/l2/data/xrsf-l2-flx1s_science/2022/10/sci_xrsf-l2-flx1s_g16_d20221001_v2-1-0.nc''
      = NGDC_URL @ ''goes'' @ format_d 16 @ ''/l2/data/'' @ ''xrsf-l2-flx1s_science'' @ ''/''
           @ strftime demo_env ''2022-10-01'' ''%Y'' @ ''/''
           @ strftime demo_env ''2022-10-01'' ''%m'' @ ''/'' @ ''sci_xrsf-l2-flx1s_g''
           @ format_d 16 @ ''_d'' @ strftime demo_env ''2022-10-01'' ''%Y%m%d'' @ ''_v2-1-0''
           @ ''.nc''"
    by (simp add: NGDC_URL_def format_d_def format_nat.simps digit_char_def demo_env_def
        demo_strftime_def remove_char_def)
  have i: "0 < length recognized_types" "''xrs-x1s'' = recognized_types ! 0"
    by (simp_all add: recognized_types_def)
  note th = get_goes_url_from_table [OF p c u, of 0 None demo_world]
  from p c i th [THEN conjunct1] mp [OF th [THEN conjunct2, THEN conjunct1] conjI [OF i]]
    th [THEN conjunct2, THEN conjunct2, THEN conjunct1]
  show ?thesis by (intro conjI)
qed

subsection \<open>The local file as a cache\<close>

text \<open>
  Claim C2. When a file already exists at the local filename (the last segment of the URL,
  joined with the path when one is given), \<^verbatim>\<open>get_goes\<close> returns that filename, calls
  \<^verbatim>\<open>urlretrieve\<close> not at all and leaves every file as it was; the only effect is the
  printed URL, and the old script has no effect at all.
\<close>

theorem get_goes_existing_file:
  assumes "parse_time env date = Inr d"
  shows "(let url = get_goes_url (strftime env) d sat type;
              filename = get_goes_filename path url
          in os_path_exists filename w \<longrightarrow>
               get_goes env date sat type path w
                 = (Inr (Some filename), w\<lparr>stdout := stdout w @ [url]\<rparr>)
               \<and> files (snd (get_goes env date sat type path w)) = files w
               \<and> urlretrieve_calls (snd (get_goes env date sat type path w))
                   = urlretrieve_calls w)
       \<and> (let url = old_get_goes_url (strftime env) d sat;
              filename = old_get_goes_filename path url
          in os_path_exists filename w \<longrightarrow>
               old_get_goes env date sat path w = (Inr (Some filename), w))"
  using assms
  by (simp add: Let_def get_goes_exists [OF assms refl refl]
      old_get_goes_exists [OF assms refl refl] print_def)

theorem get_goes_existing_file_witness:
  "parse_time demo_env ''2022-10-01'' = Inr ''2022-10-01'' \<and>
   os_path_exists ''sci_xrsf-l2-flx1s_g16_d20221001_v2-1-0.nc'' w_cached \<and>
   fst (get_goes demo_env ''2022-10-01'' 16 ''xrs-x1s'' None w_cached)
     = Inr (Some ''sci_xrsf-l2-flx1s_g16_d20221001_v2-1-0.nc'') \<and>
   files (snd (get_goes demo_env ''2022-10-01'' 16 ''xrs-x1s'' None w_cached))
     ''sci_xrsf-l2-flx1s_g16_d20221001_v2-1-0.nc'' = Some ''cached'' \<and>
   urlretrieve_calls (snd (get_goes demo_env ''2022-10-01'' 16 ''xrs-x1s'' None w_cached)) = [] \<and>
   old_get_goes demo_env ''2022-10-01'' 16 None w_cached
     = (Inr (Some ''sci_xrsf-l2-flx1s_g16_d20221001_v2-1-0.nc''), w_cached)"
proof -
  have p: "parse_time demo_env ''2022-10-01'' = Inr ''2022-10-01''"
    by (rule demo_parse_time)
  have e: "os_path_exists ''sci_xrsf-l2-flx1s_g16_d20221001_v2-1-0.nc'' w_cached"
    by (simp add: os_path_exists_def w_cached_def)
  have o: "old_get_goes_url (strftime demo_env) ''2022-10-01'' 16
      = get_goes_url (strftime demo_env) ''2022-10-01'' 16 ''xrs-x1s''"
    by (simp add: old_get_goes_url_eq default_type_def get_goes_url_def construct_path_def)
  have c: "files w_cached ''sci_xrsf-l2-flx1s_g16_d20221001_v2-1-0.nc'' = Some ''cached''"
     and "urlretrieve_calls w_cached = []"
    by (simp_all add: w_cached_def demo_world_def)
  with get_goes_existing_file [OF p, of 16 "''xrs-x1s''" None w_cached] p e o
  show ?thesis
    by (simp add: Let_def demo_url demo_filename old_get_goes_filename_eq)
qed

subsection \<open>Unrecognized instrument types\<close>

text \<open>
  Claim C8. \<^verbatim>\<open>construct_path\<close> answers every string: a type that is none of the nine
  recognized values gets the \<open>XRS_X1S\<close> fragments, so it gives the same URL as
  \<^verbatim>\<open>'xrs-x1s'\<close>. The default \<^verbatim>\<open>'xrs'\<close> of \<^verbatim>\<open>get_goes\<close> is such a type.
\<close>

theorem construct_path_unrecognized:
  "default_type \<notin> set recognized_types \<and>
   (type \<notin> set recognized_types \<longrightarrow>
      construct_path type = (''xrsf-l2-flx1s_science'', ''sci_xrsf-l2-flx1s_g'', ''_v2-1-0'')
      \<and> construct_path type = (XRS_X1S ! 0, XRS_X1S ! 1, XRS_X1S ! 2)
      \<and> construct_path type = construct_path ''xrs-x1s''
      \<and> get_goes_url fmt d sat type = get_goes_url fmt d sat ''xrs-x1s'')"
  by (simp add: default_type_def recognized_types_def construct_path_def get_goes_url_def
      XRS_X1S_def)

theorem construct_path_unrecognized_witness:
  "''xrs'' \<notin> set recognized_types \<and>
   construct_path ''xrs'' = (''xrsf-l2-flx1s_science'', ''sci_xrsf-l2-flx1s_g'', ''_v2-1-0'') \<and>
   get_goes_url demo_strftime ''2022-10-01'' 16 ''xrs''
     = get_goes_url demo_strftime ''2022-10-01'' 16 ''xrs-x1s''"
proof -
  have h: "''xrs'' \<notin> set recognized_types"
    by (simp add: recognized_types_def)
  from construct_path_unrecognized [of "''xrs''" demo_strftime "''2022-10-01''" 16] h
  show ?thesis by blast
qed

subsection \<open>The download\<close>

text \<open>
  Claim C3. When the local file does not exist and \<^verbatim>\<open>urlretrieve\<close> raises,
  \<^verbatim>\<open>get_goes\<close> prints \<^verbatim>\<open>Download failed\<close> and returns \<^verbatim>\<open>None\<close>: the result is a
  value, not an exception, and the log of downloads has grown by exactly the one failed
  call. The same holds in the old script, which prints nothing else.
\<close>

theorem get_goes_download_failed:
  assumes "parse_time env date = Inr d"
  shows "(let url = get_goes_url (strftime env) d sat type;
              filename = get_goes_filename path url
          in \<not> os_path_exists filename w \<longrightarrow>
             urlretrieve env url filename (files w) = (Inl e, fs) \<longrightarrow>
               get_goes env date sat type path w
                 = (Inr None,
                    w\<lparr>files := fs, stdout := stdout w @ [url, ''Download failed''],
                      urlretrieve_calls := urlretrieve_calls w @ [(url, filename)]\<rparr>))
       \<and> (let url = old_get_goes_url (strftime env) d sat;
              filename = old_get_goes_filename path url
          in \<not> os_path_exists filename w \<longrightarrow>
             urlretrieve env url filename (files w) = (Inl e, fs) \<longrightarrow>
               old_get_goes env date sat path w
                 = (Inr None,
                    w\<lparr>files := fs, stdout := stdout w @ [''Download failed''],
                      urlretrieve_calls := urlretrieve_calls w @ [(url, filename)]\<rparr>))"
  using get_goes_download_raises [OF assms refl refl]
    old_get_goes_download_raises [OF assms refl refl]
  by (simp add: Let_def)

theorem get_goes_download_failed_witness:
  "parse_time demo_env ''2022-10-02'' = Inr ''2022-10-02'' \<and>
   \<not> os_path_exists ''sci_xrsf-l2-flx1s_g16_d20221002_v2-1-0.nc'' demo_world \<and>
   urlretrieve demo_env demo_missing_url ''sci_xrsf-l2-flx1s_g16_d20221002_v2-1-0.nc''
       (files demo_world)
     = (Inl (LibraryError ''HTTP Error 404: Not Found''), files demo_world) \<and>
   get_goes demo_env ''2022-10-02'' 16 ''xrs-x1s'' None demo_world
     = (Inr None,
        \<lparr>files = Map.empty, stdout = [demo_missing_url, ''Download failed''],
         urlretrieve_calls =
           [(demo_missing_url, ''sci_xrsf-l2-flx1s_g16_d20221002_v2-1-0.nc'')]\<rparr>) \<and>
   old_get_goes demo_env ''2022-10-02'' 16 None demo_world
     = (Inr None,
        \<lparr>files = Map.empty, stdout = [''Download failed''],
         urlretrieve_calls =
           [(demo_missing_url, ''sci_xrsf-l2-flx1s_g16_d20221002_v2-1-0.nc'')]\<rparr>)"
proof -
  have p: "parse_time demo_env ''2022-10-02'' = Inr ''2022-10-02''"
    by (rule demo_parse_time_missing)
  have n: "\<not> os_path_exists ''sci_xrsf-l2-flx1s_g16_d20221002_v2-1-0.nc'' demo_world"
    by (simp add: os_path_exists_def demo_world_def)
  have o: "old_get_goes_url (strftime demo_env) ''2022-10-02'' 16 = demo_missing_url"
    by (simp only: old_get_goes_url_eq get_goes_url_default demo_url_missing)
  from get_goes_download_failed [OF p, of 16 "''xrs-x1s''" None demo_world
      "LibraryError ''HTTP Error 404: Not Found''" "files demo_world"] p n o
  show ?thesis
    by (simp add: Let_def demo_url_missing demo_filename_missing demo_urlretrieve_missing
        old_get_goes_filename_eq demo_world_def)
qed

text \<open>
  Claim C4. One call of \<^verbatim>\<open>get_goes\<close> adds at most one entry to the log of
  \<^verbatim>\<open>urlretrieve\<close> calls, whatever the libraries do, and none when the local file is
  already there.
\<close>

theorem get_goes_at_most_one_request:
  "(urlretrieve_calls (snd (get_goes env date sat type path w)) = urlretrieve_calls w
      \<or> (\<exists>call. urlretrieve_calls (snd (get_goes env date sat type path w))
                  = urlretrieve_calls w @ [call]))
   \<and> (parse_time env date = Inr d \<longrightarrow>
        os_path_exists (get_goes_filename path (get_goes_url (strftime env) d sat type)) w \<longrightarrow>
          urlretrieve_calls (snd (get_goes env date sat type path w)) = urlretrieve_calls w)"
  by (auto simp: get_goes_def Let_def print_def os_path_exists_def
      split: prod.splits sum.splits)

theorem get_goes_at_most_one_request_witness:
  "parse_time demo_env ''2022-10-01'' = Inr ''2022-10-01'' \<and>
   os_path_exists ''sci_xrsf-l2-flx1s_g16_d20221001_v2-1-0.nc'' w_cached \<and>
   urlretrieve_calls (snd (get_goes demo_env ''2022-10-01'' 16 ''xrs-x1s'' None w_cached)) = []"
proof -
  have p: "parse_time demo_env ''2022-10-01'' = Inr ''2022-10-01''"
    by (simp add: demo_env_def)
  have e: "os_path_exists ''sci_xrsf-l2-flx1s_g16_d20221001_v2-1-0.nc'' w_cached"
    by (simp add: os_path_exists_def w_cached_def)
  have c: "urlretrieve_calls w_cached = []"
    by (simp add: w_cached_def demo_world_def)
  from get_goes_at_most_one_request
    [of demo_env "''2022-10-01''" 16 "''xrs-x1s''" None w_cached "''2022-10-01''"] p e c
  show ?thesis
    by (simp add: demo_url demo_filename)
qed

text \<open>
  Claim C9. A filename that \<^verbatim>\<open>get_goes\<close> returns is the computed local filename and
  exists in the world the function returns in. When the download returns without raising
  and the file is still absent, the function returns \<^verbatim>\<open>None\<close> and prints nothing
  after the URL (the old script prints nothing at all).
\<close>

theorem get_goes_result_checked:
  "(get_goes env date sat type path w = (Inr (Some f), w') \<longrightarrow>
      os_path_exists f w'
      \<and> (\<exists>d. parse_time env date = Inr d
             \<and> f = get_goes_filename path (get_goes_url (strftime env) d sat type)))
   \<and> (old_get_goes env date sat path w = (Inr (Some f), w') \<longrightarrow>
      os_path_exists f w'
      \<and> (\<exists>d. parse_time env date = Inr d
             \<and> f = old_get_goes_filename path (old_get_goes_url (strftime env) d sat)))
   \<and> (parse_time env date = Inr d \<longrightarrow>
      (let url = get_goes_url (strftime env) d sat type;
           filename = get_goes_filename path url
       in \<not> os_path_exists filename w \<longrightarrow>
          urlretrieve env url filename (files w) = (Inr u, fs) \<longrightarrow>
          fs filename = None \<longrightarrow>
            get_goes env date sat type path w
              = (Inr None,
                 w\<lparr>files := fs, stdout := stdout w @ [url],
                   urlretrieve_calls := urlretrieve_calls w @ [(url, filename)]\<rparr>)))
   \<and> (parse_time env date = Inr d \<longrightarrow>
      (let url = old_get_goes_url (strftime env) d sat;
           filename = old_get_goes_filename path url
       in \<not> os_path_exists filename w \<longrightarrow>
          urlretrieve env url filename (files w) = (Inr u, fs) \<longrightarrow>
          fs filename = None \<longrightarrow>
            old_get_goes env date sat path w
              = (Inr None,
                 w\<lparr>files := fs,
                   urlretrieve_calls := urlretrieve_calls w @ [(url, filename)]\<rparr>)))"
proof -
  have "get_goes env date sat type path w = (Inr (Some f), w') \<longrightarrow>
      os_path_exists f w'
      \<and> (\<exists>d. parse_time env date = Inr d
             \<and> f = get_goes_filename path (get_goes_url (strftime env) d sat type))"
    by (auto simp: get_goes_def Let_def print_def os_path_exists_def
        split: prod.splits sum.splits if_splits)
  moreover have "old_get_goes env date sat path w = (Inr (Some f), w') \<longrightarrow>
      os_path_exists f w'
      \<and> (\<exists>d. parse_time env date = Inr d
             \<and> f = old_get_goes_filename path (old_get_goes_url (strftime env) d sat))"
    by (auto simp: old_get_goes_def Let_def print_def os_path_exists_def
        split: prod.splits sum.splits if_splits)
  moreover have "parse_time env date = Inr d \<longrightarrow>
      (let url = get_goes_url (strftime env) d sat type;
           filename = get_goes_filename path url
       in \<not> os_path_exists filename w \<longrightarrow>
          urlretrieve env url filename (files w) = (Inr u, fs) \<longrightarrow>
          fs filename = None \<longrightarrow>
            get_goes env date sat type path w
              = (Inr None,
                 w\<lparr>files := fs, stdout := stdout w @ [url],
                   urlretrieve_calls := urlretrieve_calls w @ [(url, filename)]\<rparr>))"
    using get_goes_download_returns [OF _ refl refl, of env date d path sat type w u fs]
    by (simp add: Let_def)
  moreover have "parse_time env date = Inr d \<longrightarrow>
      (let url = old_get_goes_url (strftime env) d sat;
           filename = old_get_goes_filename path url
       in \<not> os_path_exists filename w \<longrightarrow>
          urlretrieve env url filename (files w) = (Inr u, fs) \<longrightarrow>
          fs filename = None \<longrightarrow>
            old_get_goes env date sat path w
              = (Inr None,
                 w\<lparr>files := fs,
                   urlretrieve_calls := urlretrieve_calls w @ [(url, filename)]\<rparr>))"
    using old_get_goes_download_returns [OF _ refl refl, of env date d path sat w u fs]
    by (simp add: Let_def)
  ultimately show ?thesis by blast
qed

theorem get_goes_result_checked_witness:
  "get_goes demo_env ''2022-10-01'' 16 ''xrs-x1s'' None demo_world = (Inr (Some ''sci_xrsf-l2-flx1s_g16_d20221001_v2-1-0.nc''), w_fetched) \<and>
   os_path_exists ''sci_xrsf-l2-flx1s_g16_d20221001_v2-1-0.nc'' w_fetched \<and>
   old_get_goes demo_env ''2022-10-01'' 16 None demo_world = (Inr (Some ''sci_xrsf-l2-flx1s_g16_d20221001_v2-1-0.nc''), w_fetched_old) \<and>
   os_path_exists ''sci_xrsf-l2-flx1s_g16_d20221001_v2-1-0.nc'' w_fetched_old \<and>
   parse_time demo_env_no_file ''2022-10-01'' = Inr ''2022-10-01'' \<and>
   \<not> os_path_exists ''sci_xrsf-l2-flx1s_g16_d20221001_v2-1-0.nc'' demo_world \<and>
   urlretrieve demo_env_no_file ''https://data.ngdc.noaa.gov/platforms/solar-space-observing-satellites/goes/goes16/l2/data/xrsf-l2-flx1s_science/2022/10/sci_xrsf-l2-flx1s_g16_d20221001_v2-1-0.nc'' ''sci_xrsf-l2-flx1s_g16_d20221001_v2-1-0.nc'' (files demo_world) = (Inr (), Map.empty) \<and>
   get_goes demo_env_no_file ''2022-10-01'' 16 ''xrs-x1s'' None demo_world
     = (Inr None, \<lparr>files = Map.empty, stdout = [''https://data.ngdc.noaa.gov/platforms/solar-space-observing-satellites/goes/goes16/l2/data/xrsf-l2-flx1s_science/2022/10/sci_xrsf-l2-flx1s_g16_d20221001_v2-1-0.nc''], urlretrieve_calls = [(''https://data.ngdc.noaa.gov/platforms/solar-space-observing-satellites/goes/goes16/l2/data/xrsf-l2-flx1s_science/2022/10/sci_xrsf-l2-flx1s_g16_d20221001_v2-1-0.nc'', ''sci_xrsf-l2-flx1s_g16_d20221001_v2-1-0.nc'')]\<rparr>) \<and>
   old_get_goes demo_env_no_file ''2022-10-01'' 16 None demo_world
     = (Inr None, \<lparr>files = Map.empty, stdout = [], urlretrieve_calls = [(''https://data.ngdc.noaa.gov/platforms/solar-space-observing-satellites/goes/goes16/l2/data/xrsf-l2-flx1s_science/2022/10/sci_xrsf-l2-flx1s_g16_d20221001_v2-1-0.nc'', ''sci_xrsf-l2-flx1s_g16_d20221001_v2-1-0.nc'')]\<rparr>)"
proof -
  note checked = get_goes_result_checked [of demo_env "''2022-10-01''" 16 "''xrs-x1s''" None
      demo_world "''sci_xrsf-l2-flx1s_g16_d20221001_v2-1-0.nc''" w_fetched]
  note absent = get_goes_result_checked [of demo_env_no_file "''2022-10-01''" 16 "''xrs-x1s''"
      None demo_world "''sci_xrsf-l2-flx1s_g16_d20221001_v2-1-0.nc''" demo_world "''2022-10-01''" "()" Map.empty]
  have g: "get_goes demo_env ''2022-10-01'' 16 ''xrs-x1s'' None demo_world
      = (Inr (Some ''sci_xrsf-l2-flx1s_g16_d20221001_v2-1-0.nc''), w_fetched)"
    by (rule demo_get_goes_fetched)
  have a: "os_path_exists ''sci_xrsf-l2-flx1s_g16_d20221001_v2-1-0.nc'' w_fetched"
    by (rule conjunct1 [OF mp [OF conjunct1 [OF checked] g]])
  have p: "parse_time demo_env_no_file ''2022-10-01'' = Inr ''2022-10-01''"
    by (simp add: demo_env_no_file_def demo_env_def)
  have s: "strftime demo_env_no_file = strftime demo_env"
    by (simp add: demo_env_no_file_def)
  have n: "\<not> os_path_exists ''sci_xrsf-l2-flx1s_g16_d20221001_v2-1-0.nc'' demo_world"
    by (simp add: os_path_exists_def demo_world_def)
  have r: "urlretrieve demo_env_no_file ''https://data.ngdc.noaa.gov/platforms/solar-space-observing-satellites/goes/goes16/l2/data/xrsf-l2-flx1s_science/2022/10/sci_xrsf-l2-flx1s_g16_d20221001_v2-1-0.nc'' ''sci_xrsf-l2-flx1s_g16_d20221001_v2-1-0.nc'' (files demo_world) = (Inr (), Map.empty)"
    by (simp add: demo_env_no_file_def demo_world_def)
  have w: "demo_world\<lparr>files := Map.empty, stdout := stdout demo_world @ [''https://data.ngdc.noaa.gov/platforms/solar-space-observing-satellites/goes/goes16/l2/data/xrsf-l2-flx1s_science/2022/10/sci_xrsf-l2-flx1s_g16_d20221001_v2-1-0.nc''],
        urlretrieve_calls := urlretrieve_calls demo_world @ [(''https://data.ngdc.noaa.gov/platforms/solar-space-observing-satellites/goes/goes16/l2/data/xrsf-l2-flx1s_science/2022/10/sci_xrsf-l2-flx1s_g16_d20221001_v2-1-0.nc'', ''sci_xrsf-l2-flx1s_g16_d20221001_v2-1-0.nc'')]\<rparr>
      = \<lparr>files = Map.empty, stdout = [''https://data.ngdc.noaa.gov/platforms/solar-space-observing-satellites/goes/goes16/l2/data/xrsf-l2-flx1s_science/2022/10/sci_xrsf-l2-flx1s_g16_d20221001_v2-1-0.nc''], urlretrieve_calls = [(''https://data.ngdc.noaa.gov/platforms/solar-space-observing-satellites/goes/goes16/l2/data/xrsf-l2-flx1s_science/2022/10/sci_xrsf-l2-flx1s_g16_d20221001_v2-1-0.nc'', ''sci_xrsf-l2-flx1s_g16_d20221001_v2-1-0.nc'')]\<rparr>"
    by (simp add: demo_world_def)
  have t: "parse_time demo_env_no_file ''2022-10-01'' = Inr ''2022-10-01'' \<longrightarrow>
      (let url = get_goes_url (strftime demo_env_no_file) ''2022-10-01'' 16 ''xrs-x1s'';
           filename = get_goes_filename None url
       in \<not> os_path_exists filename demo_world \<longrightarrow>
          urlretrieve demo_env_no_file url filename (files demo_world) = (Inr (), Map.empty) \<longrightarrow>
          Map.empty filename = (None :: string option) \<longrightarrow>
            get_goes demo_env_no_file ''2022-10-01'' 16 ''xrs-x1s'' None demo_world
              = (Inr None,
                 demo_world\<lparr>files := Map.empty, stdout := stdout demo_world @ [url],
                   urlretrieve_calls := urlretrieve_calls demo_world @ [(url, filename)]\<rparr>))"
    using absent by (elim conjE)
  have b: "get_goes demo_env_no_file ''2022-10-01'' 16 ''xrs-x1s'' None demo_world
      = (Inr None, \<lparr>files = Map.empty, stdout = [''https://data.ngdc.noaa.gov/platforms/solar-space-observing-satellites/goes/goes16/l2/data/xrsf-l2-flx1s_science/2022/10/sci_xrsf-l2-flx1s_g16_d20221001_v2-1-0.nc''], urlretrieve_calls = [(''https://data.ngdc.noaa.gov/platforms/solar-space-observing-satellites/goes/goes16/l2/data/xrsf-l2-flx1s_science/2022/10/sci_xrsf-l2-flx1s_g16_d20221001_v2-1-0.nc'', ''sci_xrsf-l2-flx1s_g16_d20221001_v2-1-0.nc'')]\<rparr>)"
    using t [rule_format, OF p] n r
    unfolding Let_def s demo_url demo_filename w
    by simp
  have a': "os_path_exists ''sci_xrsf-l2-flx1s_g16_d20221001_v2-1-0.nc'' w_fetched_old"
    by (simp add: os_path_exists_def w_fetched_old_def)
  from g a demo_old_get_goes_fetched a' p n r b demo_no_file_old
  show ?thesis by (intro conjI)
qed

subsection \<open>The parsing step\<close>



subsection \<open>The two scripts\<close>

text \<open>
  Claim C6. For every date, satellite number and path, \<^verbatim>\<open>get_goes\<close> of the old script
  computes the URL and the local filename that \<^verbatim>\<open>get_goes\<close> of the new script computes
  with its default instrument type, and the two \<^verbatim>\<open>make_goes_timeseries\<close> are the same
  function.
\<close>

theorem old_script_agrees:
  "old_get_goes_url fmt d sat = get_goes_url fmt d sat default_type
   \<and> old_get_goes_filename path (old_get_goes_url fmt d sat)
       = get_goes_filename path (get_goes_url fmt d sat default_type)
   \<and> old_make_goes_timeseries env file fs = make_goes_timeseries env file fs
   \<and> (old_make_goes_timeseries :: ('d, 't::linorder) env \<Rightarrow> string option \<Rightarrow> files \<Rightarrow> exn + ('t, real) timeseries)
       = make_goes_timeseries"
proof -
  have "(old_make_goes_timeseries :: ('d, 't::linorder) env \<Rightarrow> string option \<Rightarrow> files \<Rightarrow> exn + ('t, real) timeseries)
       = make_goes_timeseries"
    by (intro ext) (simp add: old_make_goes_timeseries_def make_goes_timeseries_def)
  moreover have "old_make_goes_timeseries env file fs = make_goes_timeseries env file fs"
    by (simp add: old_make_goes_timeseries_def make_goes_timeseries_def)
  ultimately show ?thesis
    by (simp add: old_get_goes_url_eq old_get_goes_filename_eq)
qed

theorem old_script_agrees_witness:
  "old_get_goes_url demo_strftime ''2022-10-01'' 16
     = get_goes_url demo_strftime ''2022-10-01'' 16 ''xrs'' \<and>
   old_get_goes_filename (Some ''public/data'') (old_get_goes_url demo_strftime ''2022-10-01'' 16)
     = get_goes_filename (Some ''public/data'')
         (get_goes_url demo_strftime ''2022-10-01'' 16 ''xrs'') \<and>
   old_make_goes_timeseries demo_env (Some ''f.nc'') [''f.nc'' \<mapsto> ''netcdf'']
     = make_goes_timeseries demo_env (Some ''f.nc'') [''f.nc'' \<mapsto> ''netcdf'']"
  using old_script_agrees [of demo_strftime "''2022-10-01''" 16 "Some ''public/data''" demo_env
      "Some ''f.nc''" "[''f.nc'' \<mapsto> ''netcdf'']"]
  unfolding default_type_def
  by (elim conjE) (intro conjI, assumption+)

subsection \<open>Catch and continue\<close>

text \<open>
  Claim C7. \<^verbatim>\<open>get_goes_by_date\<close> tries every combination of type, satellite and date
  in turn. Whatever the body of the \<^verbatim>\<open>try\<close> did for the combinations before the
  \<open>i\<close>-th, and whether the \<open>i\<close>-th raised or completed, the run goes on with all the
  combinations after it, from the world the \<open>i\<close>-th left; and when the \<open>i\<close>-th
  completed, the table was written to its output file.
\<close>

theorem get_goes_by_date_continues:
  assumes "i < length combinations"
    and "combinations ! i = (type, sat, date)"
    and "try_body env type sat date (after env (take i combinations) w) = (outcome, w1)"
  shows "get_goes_by_date env w = after env (drop (Suc i) combinations) w1
     \<and> (outcome = Inr () \<longrightarrow>
          (\<exists>file goes_xrs w0.
             get_goes env date sat type (Some DATA_PATH) (after env (take i combinations) w)
               = (Inr file, w0)
           \<and> make_goes_timeseries env file (files w0) = Inr goes_xrs
           \<and> table_write env (output_file_name type sat date) goes_xrs (files w0)
               = (Inr (), files w1)))"
  using after_nth [OF assms(1,2), of env w] assms(3) try_body_completes [of env type sat date _ "()" w1]
  by (simp add: get_goes_by_date_after)

theorem get_goes_by_date_continues_witness:
  "0 < length combinations \<and>
   combinations ! 0 = (''xrs-x1s'', 16, ''2022-10-02'') \<and>
   try_body demo_env ''xrs-x1s'' 16 ''2022-10-02'' demo_world
     = (Inl (ValueError ''no engine''), w_failed) \<and>
   get_goes_by_date demo_env demo_world = after demo_env (drop 1 combinations) w_failed \<and>
   1 < length combinations \<and>
   combinations ! 1 = (''xrs-x1s'', 16, ''2022-10-01'') \<and>
   after demo_env (take 1 combinations) demo_world = w_failed \<and>
   fst (try_body demo_env ''xrs-x1s'' 16 ''2022-10-01'' w_failed) = Inr () \<and>
   get_goes_by_date demo_env demo_world =
     after demo_env (drop 2 combinations)
       (snd (try_body demo_env ''xrs-x1s'' 16 ''2022-10-01'' w_failed)) \<and>
   (\<exists>file goes_xrs w0.
      get_goes demo_env ''2022-10-01'' 16 ''xrs-x1s'' (Some DATA_PATH) w_failed = (Inr file, w0)
    \<and> make_goes_timeseries demo_env file (files w0) = Inr goes_xrs
    \<and> table_write demo_env (output_file_name ''xrs-x1s'' 16 ''2022-10-01'') goes_xrs (files w0)
        = (Inr (), files (snd (try_body demo_env ''xrs-x1s'' 16 ''2022-10-01'' w_failed)))) \<and>
   files (snd (try_body demo_env ''xrs-x1s'' 16 ''2022-10-01'' w_failed))
     ''nasa_spaceApp/data/goes-16-xrs-x1s-20221001.json'' = Some ''json''"
proof -
  have l: "0 < length combinations" and l': "1 < length combinations"
    by (simp_all add: length_combinations)
  have c: "combinations ! 0 = (''xrs-x1s'', 16, ''2022-10-02'')"
    by (subst combinations_eval) simp
  have c': "combinations ! 1 = (''xrs-x1s'', 16, ''2022-10-01'')"
    by (subst combinations_eval) simp
  have t: "try_body demo_env ''xrs-x1s'' 16 ''2022-10-02''
        (after demo_env (take 0 combinations) demo_world)
      = (Inl (ValueError ''no engine''), w_failed)"
    by (simp add: demo_try_body_failed)
  have a: "after demo_env (take 1 combinations) demo_world = w_failed"
    by (subst combinations_eval) (simp add: demo_try_body_failed)
  have t': "try_body demo_env ''xrs-x1s'' 16 ''2022-10-01''
        (after demo_env (take 1 combinations) demo_world)
      = (fst (try_body demo_env ''xrs-x1s'' 16 ''2022-10-01'' w_failed),
         snd (try_body demo_env ''xrs-x1s'' 16 ''2022-10-01'' w_failed))"
    by (simp only: a prod.collapse)
  have first: "get_goes_by_date demo_env demo_world
      = after demo_env (drop 1 combinations) w_failed"
    using get_goes_by_date_continues [OF l c t] by simp
  note second = get_goes_by_date_continues [OF l' c' t', unfolded a Suc_1]
  have o: "fst (try_body demo_env ''xrs-x1s'' 16 ''2022-10-01'' w_failed) = Inr ()"
    using demo_try_body_next by (rule conjunct1)
  have f: "files (snd (try_body demo_env ''xrs-x1s'' 16 ''2022-10-01'' w_failed))
     ''nasa_spaceApp/data/goes-16-xrs-x1s-20221001.json'' = Some ''json''"
    using demo_try_body_next by (rule conjunct2)
  from l c demo_try_body_failed first l' c' a o conjunct1 [OF second]
    mp [OF conjunct2 [OF second] o] f
  show ?thesis by (intro conjI)
qed

subsection \<open>An interval that is not a key\<close>

text \<open>
  Claim C10. For an interval string that is none of the four keys, \<^verbatim>\<open>read_recent_noaa\<close>
  prints the warning with the allowed keys and then raises \<^verbatim>\<open>KeyError\<close> for that
  string: no default is used and no table is returned.
\<close>

theorem read_recent_noaa_invalid_interval:
  assumes "interval \<notin> {''7-day'', ''3-day'', ''1-day'', ''6-hour''}"
  shows "read_recent_noaa env interval w =
     (Inl (KeyError interval),
      w\<lparr>stdout := stdout w @
         [''interval must be one of dict_keys(['7-day', '3-day', '1-day', '6-hour'])'']\<rparr>)"
  using assms
  by (simp add: read_recent_noaa_def dict_interval_def dict_keys_repr_def quoted_def print_def)

theorem read_recent_noaa_invalid_interval_witness:
  "''2-day'' \<notin> {''7-day'', ''3-day'', ''1-day'', ''6-hour''} \<and>
   read_recent_noaa demo_env ''2-day'' demo_world =
     (Inl (KeyError ''2-day''),
      \<lparr>files = Map.empty,
       stdout = [''interval must be one of dict_keys(['7-day', '3-day', '1-day', '6-hour'])''],
       urlretrieve_calls = []\<rparr>)"
proof -
  have h: "''2-day'' \<notin> {''7-day'', ''3-day'', ''1-day'', ''6-hour''}"
    by simp
  from read_recent_noaa_invalid_interval [OF h, of demo_env demo_world] h
  show ?thesis by (simp add: demo_world_def)
qed

end
